theory Spec2Isabelle
  imports
    Complex_Main
    "HOL-Library.Multiset"
    "HOL-Library.Char_ord"
    "HOL-Library.List_Lexorder"
    "HOL-Library.Product_Lexorder"
begin

section \<open>Data model\<close>

text \<open>
  The program (\<^verbatim>\<open>app.py\<close>) keeps its expenses in a pandas DataFrame with the four columns
  \<^verbatim>\<open>date\<close>, \<^verbatim>\<open>category\<close>, \<^verbatim>\<open>amount\<close> and \<^verbatim>\<open>note\<close>. A frame is modelled as the
  list of its rows, in index order.

  \<^item> A \<^verbatim>\<open>datetime.date\<close> is the triple (year, month, day); the lexicographic order of
    the triple is the chronological order Python compares dates by.
  \<^item> A Python \<^verbatim>\<open>str\<close> is a \<open>string\<close>; a \<open>char\<close> stands for a code point below 256.
  \<^item> A \<^verbatim>\<open>float\<close> amount is a \<open>real\<close>: its arithmetic is exact in the model, rounding
    is not modelled.
\<close>

type_synonym pydate = "nat \<times> nat \<times> nat"

text \<open>
  A row is polymorphic in what its \<^verbatim>\<open>date\<close> cell holds: a \<^verbatim>\<open>datetime.date\<close> in the frames
  the program works on, and text in the copy that \<^verbatim>\<open>save_expenses\<close> writes out.
\<close>

record 'd row =
  col_date :: 'd
  col_category :: string
  col_amount :: real
  col_note :: string

type_synonym expense = "pydate row"

type_synonym dataframe = "expense list"

definition CATEGORIES :: "string list" where
  "CATEGORIES = [''Food'', ''Rent'', ''Transport'', ''Groceries'', ''Entertainment'',
     ''Shopping'', ''Health'', ''Other'']"

section \<open>Python string methods\<close>

text \<open>
  \<^verbatim>\<open>str.isspace\<close> on one code point below 256: the ASCII controls 9 to 13 and 28 to 31,
  the space, NEL (133) and the no-break space (160).
\<close>

definition isspace :: "char \<Rightarrow> bool" where
  "isspace c = ((of_char c :: nat) \<in> set [9, 10, 11, 12, 13, 28, 29, 30, 31, 32, 133, 160])"

text \<open>\<^verbatim>\<open>s.strip()\<close>: drop the whitespace at both ends.\<close>

definition strip :: "string \<Rightarrow> string" where
  "strip s = rev (dropWhile isspace (rev (dropWhile isspace s)))"

text \<open>
  \<^verbatim>\<open>s.lower()\<close> on code points below 256: the ASCII capitals and the Latin-1 capitals
  (192 to 222, but not the multiplication sign 215) move up by 32.
\<close>

definition lower_char :: "char \<Rightarrow> char" where
  "lower_char c =
     (let n = (of_char c :: nat)
      in if (65 \<le> n \<and> n \<le> 90) \<or> (192 \<le> n \<and> n \<le> 222 \<and> n \<noteq> 215)
         then char_of (n + 32) else c)"

definition lower :: "string \<Rightarrow> string" where
  "lower s = map lower_char s"

text \<open>\<^verbatim>\<open>sub in s\<close>: \<open>sub\<close> occurs in \<open>s\<close> as a contiguous substring.\<close>

fun startswith :: "string \<Rightarrow> string \<Rightarrow> bool" where
  "startswith s [] = True"
| "startswith [] (c # sub) = False"
| "startswith (d # s) (c # sub) = (d = c \<and> startswith s sub)"

fun contains :: "string \<Rightarrow> string \<Rightarrow> bool" where
  "contains [] sub = startswith [] sub"
| "contains (d # s) sub = (startswith (d # s) sub \<or> contains s sub)"

text \<open>
  \<^verbatim>\<open>str(d)\<close> of a date is \<^verbatim>\<open>d.isoformat()\<close>: \<^verbatim>\<open>YYYY-MM-DD\<close>, zero padded (Python's years are
  1 to 9999).
\<close>

definition digit_char :: "nat \<Rightarrow> char" where
  "digit_char n = char_of (48 + n mod 10)"

definition isoformat :: "pydate \<Rightarrow> string" where
  "isoformat d =
     (case d of (y, m, dd) \<Rightarrow>
        [digit_char (y div 1000), digit_char (y div 100), digit_char (y div 10), digit_char y]
        @ ''-'' @ [digit_char (m div 10), digit_char m]
        @ ''-'' @ [digit_char (dd div 10), digit_char dd])"

section \<open>The regular expressions of the note search\<close>

text \<open>
  \<^verbatim>\<open>Series.str.contains(pat, na=False)\<close> is called with its default \<^verbatim>\<open>regex=True\<close>: pandas
  compiles \<open>pat\<close> with \<^verbatim>\<open>re.compile\<close> and keeps the rows where \<^verbatim>\<open>search\<close> finds a match.
  The model covers the patterns made of ordinary characters and the dot, which matches
  any character but the newline. A pattern with another special character of \<^verbatim>\<open>re\<close> is
  outside the model (\<open>None\<close>): \<^verbatim>\<open>re.compile\<close> may raise on it, or it uses an operator that
  is not modelled.
\<close>

datatype re_item = AnyChar | Lit char

definition re_special :: "char \<Rightarrow> bool" where
  "re_special c = (c \<in> set (''.^$*+?{}[]|()'' @ [CHR 0x5C]))"

definition re_compile :: "string \<Rightarrow> re_item list option" where
  "re_compile pat =
     (if list_ex (\<lambda>c. re_special c \<and> c \<noteq> CHR ''.'') pat then None
      else Some (map (\<lambda>c. if c = CHR ''.'' then AnyChar else Lit c) pat))"

fun match_item :: "re_item \<Rightarrow> char \<Rightarrow> bool" where
  "match_item AnyChar c = (c \<noteq> CHR 0x0A)"
| "match_item (Lit d) c = (c = d)"

fun match_here :: "re_item list \<Rightarrow> string \<Rightarrow> bool" where
  "match_here [] s = True"
| "match_here (i # p) [] = False"
| "match_here (i # p) (c # s) = (match_item i c \<and> match_here p s)"

fun re_search :: "re_item list \<Rightarrow> string \<Rightarrow> bool" where
  "re_search p [] = match_here p []"
| "re_search p (c # s) = (match_here p (c # s) \<or> re_search p s)"

section \<open>The pandas kernels that are taken as parameters\<close>

text \<open>
  pandas is not part of the repository. What the program needs of it and cannot be
  written down from the program's text is a parameter of the model, and every theorem
  holds for all values of these parameters unless it states a hypothesis on them. Each
  kernel is taken to return a value on every column it is given:
  \<^item> \<open>float_repr\<close>, \<open>int_repr\<close>: the text of a number (\<^verbatim>\<open>to_csv\<close>, \<^verbatim>\<open>astype(str)\<close>);
  \<^item> \<open>convert_cell\<close>: the value \<^verbatim>\<open>read_csv\<close> gives to a cell that is not a missing-value
    marker, from the texts of its column and its position (the column's type is inferred
    from all its cells);
  \<^item> \<open>to_datetime\<close>: \<^verbatim>\<open>pd.to_datetime(column, errors="coerce").dt.date\<close> at one position,
    \<open>None\<close> for \<^verbatim>\<open>NaT\<close>;
  \<^item> \<open>to_numeric\<close>: \<^verbatim>\<open>pd.to_numeric(column, errors="coerce")\<close> at one position, \<open>None\<close>
    for \<^verbatim>\<open>NaN\<close>;
  \<^item> \<open>argsort_dates\<close>, \<open>argsort_amounts\<close>: the row positions in the order in which
    \<^verbatim>\<open>sort_values(..., ascending=False)\<close> puts them, computed from the key column by the
    sort algorithm of the default \<^verbatim>\<open>kind="quicksort"\<close>;
  \<^item> \<open>str_keeps_na\<close>: whether \<^verbatim>\<open>astype(str)\<close> leaves a missing value missing, as pandas
    does from version 3 on, or makes it the text \<^verbatim>\<open>nan\<close>, as pandas 2 does.
\<close>

datatype cell = NaN | StrCell string | IntCell int | FloatCell real | BoolCell bool

record pandas =
  float_repr :: "real \<Rightarrow> string"
  int_repr :: "int \<Rightarrow> string"
  convert_cell :: "string list \<Rightarrow> nat \<Rightarrow> cell"
  to_datetime :: "cell list \<Rightarrow> nat \<Rightarrow> pydate option"
  to_numeric :: "cell list \<Rightarrow> nat \<Rightarrow> real option"
  argsort_dates :: "pydate list \<Rightarrow> nat list"
  argsort_amounts :: "real list \<Rightarrow> nat list"
  str_keeps_na :: bool

text \<open>
  What pandas documents of the sort: the result holds every row position once, and the
  keys read in that order descend. The order of rows with equal keys is not part of it:
  \<^verbatim>\<open>quicksort\<close> is documented as not stable.
\<close>

definition descending_indexer :: "'k::linorder list \<Rightarrow> nat list \<Rightarrow> bool" where
  "descending_indexer keys ix =
     (mset ix = mset [0..<length keys] \<and> sorted_wrt (\<lambda>i j. keys ! j \<le> keys ! i) ix)"

text \<open>
  \<^verbatim>\<open>df.sort_values(by=..., ascending=False)\<close>, followed by \<^verbatim>\<open>reset_index(drop=True)\<close>
  where the program calls it (a list has no index labels to reset): the rows taken in the
  order of the indexer.
\<close>

definition sort_values :: "('k list \<Rightarrow> nat list) \<Rightarrow> ('r \<Rightarrow> 'k) \<Rightarrow> 'r list \<Rightarrow> 'r list" where
  "sort_values argsort by df = map (\<lambda>i. df ! i) (argsort (map by df))"

text \<open>\<^verbatim>\<open>Series.sum()\<close>: the values added up from 0, so 0 for an empty column.\<close>

definition series_sum :: "real list \<Rightarrow> real" where
  "series_sum xs = foldl (+) 0 xs"

text \<open>
  A row of the model has a text in its category. The one place where a category can be
  a missing value is \<^verbatim>\<open>load_expenses\<close>, on a line whose category cell is empty or another
  marker: there \<^verbatim>\<open>astype(str)\<close> writes the text \<^verbatim>\<open>nan\<close> under pandas 2 and leaves the
  value missing from pandas 3 on. The model writes the text \<^verbatim>\<open>nan\<close> in both cases (the
  form never gives this category), and \<open>isna_category\<close> says whether the program still
  takes it for a missing value. Comparing it with a selected category gives false either
  way.
\<close>

definition isna_category :: "pandas \<Rightarrow> string \<Rightarrow> bool" where
  "isna_category lib c = (str_keeps_na lib \<and> c = ''nan'')"

text \<open>
  \<^verbatim>\<open>df.groupby("category", as_index=False)["amount"].sum()\<close>: the rows whose category is
  a missing value are left out (\<^verbatim>\<open>dropna=True\<close> is the default); one row per distinct
  category of the others, the categories in ascending order (\<^verbatim>\<open>sort=True\<close> is the
  default), each with the sum of the amounts of its rows.
\<close>

definition groupby_sum :: "pandas \<Rightarrow> dataframe \<Rightarrow> (string \<times> real) list" where
  "groupby_sum lib df =
     map (\<lambda>c. (c, series_sum (map col_amount (filter (\<lambda>r. col_category r = c) df))))
       (sort (remdups (filter (\<lambda>c. \<not> isna_category lib c) (map col_category df))))"

section \<open>The record store\<close>

text \<open>
  The file system maps a path to the table of a CSV file with the header
  \<^verbatim>\<open>date,category,amount,note\<close>: one tuple of cell texts per line. The quoting and the
  splitting into cells, which the CSV writer and reader of pandas do, are below the model.
\<close>

type_synonym path = string

type_synonym csv_row = "string \<times> string \<times> string \<times> string"

type_synonym filesystem = "path \<rightharpoonup> csv_row list"

definition CSV_PATH :: path where
  "CSV_PATH = ''data/expenses.csv''"

text \<open>
  \<^verbatim>\<open>df.to_csv(path, index=False)\<close> of a frame whose date column holds text: the text
  cells as they are, the amount as the text of the number.
\<close>

definition to_csv :: "pandas \<Rightarrow> string row list \<Rightarrow> csv_row list" where
  "to_csv lib df =
     map (\<lambda>r. (col_date r, col_category r, float_repr lib (col_amount r), col_note r)) df"

text \<open>
  \<^verbatim>\<open>
  def save_expenses(df, path):
      df_to_save = df.copy()
      df_to_save["date"] = df_to_save["date"].astype(str)
      df_to_save.to_csv(path, index=False)
  \<close>
  On values: the file at \<open>path\<close> is replaced by the table of the frame.
\<close>

definition save_expenses :: "pandas \<Rightarrow> dataframe \<Rightarrow> path \<Rightarrow> filesystem \<Rightarrow> filesystem" where
  "save_expenses lib df path fs =
     (let df_to_save =
            map (\<lambda>r. \<lparr>col_date = isoformat (col_date r), col_category = col_category r,
                        col_amount = col_amount r, col_note = col_note r\<rparr>) df
      in fs(path \<mapsto> to_csv lib df_to_save))"

text \<open>
  The texts \<^verbatim>\<open>read_csv\<close> reads as a missing value by default (\<^verbatim>\<open>na_filter=True\<close>,
  \<^verbatim>\<open>keep_default_na=True\<close>): the empty cell and the markers of pandas'
  \<^verbatim>\<open>STR_NA_VALUES\<close>.
\<close>

definition STR_NA_VALUES :: "string list" where
  "STR_NA_VALUES = ['''', ''#N/A'', ''#N/A N/A'', ''#NA'', ''-1.#IND'', ''-1.#QNAN'', ''-NaN'',
     ''-nan'', ''1.#IND'', ''1.#QNAN'', ''<NA>'', ''N/A'', ''NA'', ''NULL'', ''NaN'', ''None'',
     ''n/a'', ''nan'', ''null'']"

definition isna_text :: "string \<Rightarrow> bool" where
  "isna_text t = (t \<in> set STR_NA_VALUES)"

text \<open>
  One column of \<^verbatim>\<open>pd.read_csv(path)\<close>, cell by cell: a marker becomes \<^verbatim>\<open>NaN\<close>, any
  other cell the value pandas converts it to.
\<close>

definition read_cell :: "pandas \<Rightarrow> string list \<Rightarrow> nat \<Rightarrow> cell" where
  "read_cell lib texts i = (if isna_text (texts ! i) then NaN else convert_cell lib texts i)"

definition read_column :: "pandas \<Rightarrow> string list \<Rightarrow> cell list" where
  "read_column lib texts = map (read_cell lib texts) [0..<length texts]"

text \<open>
  \<^verbatim>\<open>column.fillna("")\<close> and \<^verbatim>\<open>column.astype(str)\<close>, cell by cell. A missing value is
  written as the text \<^verbatim>\<open>nan\<close>: see \<open>isna_category\<close> for the versions of pandas that keep
  it missing. The note column has no missing value when \<^verbatim>\<open>astype(str)\<close> is applied to it.
\<close>

fun fillna :: "string \<Rightarrow> cell \<Rightarrow> cell" where
  "fillna v NaN = StrCell v"
| "fillna v c = c"

fun astype_str :: "pandas \<Rightarrow> cell \<Rightarrow> string" where
  "astype_str lib NaN = ''nan''"
| "astype_str lib (StrCell s) = s"
| "astype_str lib (IntCell i) = int_repr lib i"
| "astype_str lib (FloatCell x) = float_repr lib x"
| "astype_str lib (BoolCell b) = (if b then ''True'' else ''False'')"

text \<open>
  \<^verbatim>\<open>df.dropna(subset=["date", "amount"])\<close> on the rows of the cleaned columns: a row stays
  when its date is not \<^verbatim>\<open>NaT\<close> and its amount is not \<^verbatim>\<open>NaN\<close>.
\<close>

fun dropna :: "(pydate option \<times> string \<times> real option \<times> string) list \<Rightarrow> dataframe" where
  "dropna [] = []"
| "dropna ((Some d, c, Some a, n) # rows) =
     \<lparr>col_date = d, col_category = c, col_amount = a, col_note = n\<rparr> # dropna rows"
| "dropna (r # rows) = dropna rows"

text \<open>
  \<^verbatim>\<open>
  def load_expenses(path):
      if not path.exists():
          return pd.DataFrame(columns=["date", "category", "amount", "note"])
      df = pd.read_csv(path)
      df["date"] = pd.to_datetime(df["date"], errors="coerce").dt.date
      df["category"] = df["category"].astype(str)
      df["amount"] = pd.to_numeric(df["amount"], errors="coerce")
      df["note"] = df["note"].fillna("").astype(str)
      df = df.dropna(subset=["date", "amount"]).copy()
      return df
  \<close>
\<close>

definition load_expenses :: "pandas \<Rightarrow> filesystem \<Rightarrow> path \<Rightarrow> dataframe" where
  "load_expenses lib fs path =
     (case fs path of
        None \<Rightarrow> []
      | Some table \<Rightarrow>
          (let df_date = read_column lib (map (\<lambda>(d, c, a, n). d) table);
               df_category = read_column lib (map (\<lambda>(d, c, a, n). c) table);
               df_amount = read_column lib (map (\<lambda>(d, c, a, n). a) table);
               df_note = read_column lib (map (\<lambda>(d, c, a, n). n) table);
               date' = map (to_datetime lib df_date) [0..<length df_date];
               category' = map (astype_str lib) df_category;
               amount' = map (to_numeric lib df_amount) [0..<length df_amount];
               note' = map (astype_str lib) (map (fillna '''') df_note)
           in dropna (zip date' (zip category' (zip amount' note')))))"

section \<open>Adding a row\<close>

text \<open>
  \<^verbatim>\<open>
  def add_expense(df, expense_date, category, amount, note):
      new_row = pd.DataFrame([{"date": expense_date, "category": category,
                               "amount": float(amount), "note": note.strip()}])
      out = pd.concat([df, new_row], ignore_index=True)
      return out
  \<close>
  \<^verbatim>\<open>float(amount)\<close> of a number is that number, so it is the identity on \<open>real\<close>.
\<close>

definition py_float :: "real \<Rightarrow> real" where
  "py_float x = x"

definition add_expense :: "dataframe \<Rightarrow> pydate \<Rightarrow> string \<Rightarrow> real \<Rightarrow> string \<Rightarrow> dataframe" where
  "add_expense df expense_date category amount note =
     (let new_row = [\<lparr>col_date = expense_date, col_category = category,
                       col_amount = py_float amount, col_note = strip note\<rparr>];
          out = df @ new_row
      in out)"

section \<open>The page\<close>

text \<open>
  What the page shows with \<^verbatim>\<open>st.error\<close>, \<^verbatim>\<open>st.success\<close>, \<^verbatim>\<open>st.warning\<close> and \<^verbatim>\<open>st.info\<close>
  (the texts without their emoji).
\<close>

datatype message = StError string | StSuccess string | StWarning string | StInfo string

text \<open>
  \<^verbatim>\<open>
  if submitted:
      if amount <= 0:
          st.error("Amount must be greater than 0.")
      else:
          df = add_expense(df, expense_date, category, amount, note)
          save_expenses(df, CSV_PATH)
          st.success("Expense added")
  \<close>
  The state is the frame \<open>df\<close> of this run and the file system.
\<close>

definition on_submit ::
  "pandas \<Rightarrow> pydate \<Rightarrow> string \<Rightarrow> real \<Rightarrow> string \<Rightarrow> dataframe \<times> filesystem
     \<Rightarrow> message \<times> dataframe \<times> filesystem" where
  "on_submit lib expense_date category amount note s =
     (case s of (df, fs) \<Rightarrow>
        if amount \<le> 0 then (StError ''Amount must be greater than 0.'', df, fs)
        else
          (let df' = add_expense df expense_date category amount note;
               fs' = save_expenses lib df' CSV_PATH fs
           in (StSuccess ''Expense added'', df', fs')))"

text \<open>
  \<^verbatim>\<open>
  filtered = df_display.copy()
  if selected_category != "All":
      filtered = filtered[filtered["category"] == selected_category]
  if search_note.strip():
      filtered = filtered[filtered["note"].str.lower().str.contains(
          search_note.strip().lower(), na=False)]
  \<close>
  The result is \<open>None\<close> when the keyword is a pattern outside the modelled part of \<^verbatim>\<open>re\<close>.
\<close>

definition filtered :: "dataframe \<Rightarrow> string \<Rightarrow> string \<Rightarrow> dataframe option" where
  "filtered df_display selected_category search_note =
     (let filtered0 = df_display;
          filtered1 =
            (if selected_category \<noteq> ''All''
             then filter (\<lambda>r. col_category r = selected_category) filtered0
             else filtered0)
      in if strip search_note \<noteq> []
         then (case re_compile (lower (strip search_note)) of
                 None \<Rightarrow> None
               | Some pat \<Rightarrow> Some (filter (\<lambda>r. re_search pat (lower (col_note r))) filtered1))
         else Some filtered1)"

text \<open>
  The listing and the summary:
  \<^verbatim>\<open>
  if df.empty:
      st.info("No expenses yet. Add your first one above.")
  else:
      df_display = df.sort_values(by="date", ascending=False).reset_index(drop=True)
      ... filtered ...
      total_spent = df["amount"].sum()
      by_category = df.groupby("category", as_index=False)["amount"].sum()
                      .sort_values("amount", ascending=False)
  \<close>
\<close>

definition df_display :: "pandas \<Rightarrow> dataframe \<Rightarrow> dataframe" where
  "df_display lib df = sort_values (argsort_dates lib) col_date df"

definition total_spent :: "dataframe \<Rightarrow> real" where
  "total_spent df = series_sum (map col_amount df)"

definition by_category :: "pandas \<Rightarrow> dataframe \<Rightarrow> (string \<times> real) list" where
  "by_category lib df = sort_values (argsort_amounts lib) snd (groupby_sum lib df)"

datatype page =
  NoExpenses message
| Summary dataframe real "(string \<times> real) list"

definition render :: "pandas \<Rightarrow> dataframe \<Rightarrow> string \<Rightarrow> string \<Rightarrow> page option" where
  "render lib df selected_category search_note =
     (if df = [] then Some (NoExpenses (StInfo ''No expenses yet. Add your first one above.''))
      else
        (case filtered (df_display lib df) selected_category search_note of
           None \<Rightarrow> None
         | Some shown \<Rightarrow> Some (Summary shown (total_spent df) (by_category lib df))))"

text \<open>
  The button that clears the data:
  \<^verbatim>\<open>
  if st.button("Clear ALL data"):
      st.warning("Click again to confirm deletion.")
      if "confirm_clear" not in st.session_state:
          st.session_state["confirm_clear"] = True
      else:
          CSV_PATH.unlink(missing_ok=True)
          st.session_state.pop("confirm_clear", None)
          st.success("All data cleared. Refreshing...")
          st.experimental_rerun()
  \<close>
  The state is \<^verbatim>\<open>st.session_state\<close> and the file system. The two confirmation states are
  read off the session state: \<open>PendingConfirm\<close> when it holds the key
  \<^verbatim>\<open>confirm_clear\<close>, \<open>Idle\<close> when it does not.
\<close>

type_synonym session_state = "string \<rightharpoonup> bool"

datatype confirm_state = Idle | PendingConfirm

definition confirm_state_of :: "session_state \<Rightarrow> confirm_state" where
  "confirm_state_of ss = (if ss ''confirm_clear'' = None then Idle else PendingConfirm)"

definition clear_all_clicked ::
  "session_state \<times> filesystem \<Rightarrow> message list \<times> session_state \<times> filesystem" where
  "clear_all_clicked s =
     (case s of (ss, fs) \<Rightarrow>
        if ss ''confirm_clear'' = None
        then ([StWarning ''Click again to confirm deletion.''],
              ss(''confirm_clear'' \<mapsto> True), fs)
        else ([StWarning ''Click again to confirm deletion.'',
               StSuccess ''All data cleared. Refreshing...''],
              ss(''confirm_clear'' := None), fs(CSV_PATH := None)))"

section \<open>Saving, with the frames as objects\<close>

text \<open>
  Whether \<^verbatim>\<open>save_expenses\<close> changes the frame it is given depends on which object each
  statement writes to, so here the frames live in a store: an address is a position in
  the list of objects, and a new object is put at the end. A date cell of an object holds
  a \<^verbatim>\<open>datetime.date\<close> or, after \<^verbatim>\<open>astype(str)\<close>, its text.

  In \<open>save_expenses_store\<close> the argument \<open>df\<close> is the address of the frame (an address of
  the store: a Python variable always refers to an object). \<open>objs1\<close> is the store after
  \<^verbatim>\<open>df_to_save = df.copy()\<close>, \<open>objs2\<close> the store after
  \<^verbatim>\<open>df_to_save["date"] = df_to_save["date"].astype(str)\<close>, which writes to the object at
  \<open>df_to_save\<close>, and \<open>fs'\<close> the file system after \<^verbatim>\<open>df_to_save.to_csv(path, index=False)\<close>.
\<close>

datatype datecell = DateObj pydate | DateStr string

fun str_datecell :: "datecell \<Rightarrow> string" where
  "str_datecell (DateObj d) = isoformat d"
| "str_datecell (DateStr s) = s"

type_synonym frame_object = "datecell row list"

type_synonym store = "frame_object list"

definition save_expenses_store ::
  "pandas \<Rightarrow> nat \<Rightarrow> path \<Rightarrow> store \<times> filesystem \<Rightarrow> store \<times> filesystem" where
  "save_expenses_store lib df path s =
     (case s of (objs, fs) \<Rightarrow>
        (let df_to_save = length objs;
             objs1 = objs @ [objs ! df];
             objs2 = objs1[df_to_save :=
                       map (\<lambda>r. r\<lparr>col_date := DateStr (str_datecell (col_date r))\<rparr>)
                         (objs1 ! df_to_save)];
             fs' = fs(path \<mapsto> to_csv lib
                     (map (\<lambda>r. \<lparr>col_date = str_datecell (col_date r),
                                 col_category = col_category r, col_amount = col_amount r,
                                 col_note = col_note r\<rparr>) (objs2 ! df_to_save)))
         in (objs2, fs')))"

section \<open>Notions the properties are stated with\<close>

text \<open>
  The rows of \<open>out\<close> with equal keys stand in the order they have in \<open>df\<close>: for every key
  of \<open>df\<close>, the rows with that key are the same list in both.
\<close>

definition keeps_tie_order :: "('r \<Rightarrow> 'k) \<Rightarrow> 'r list \<Rightarrow> 'r list \<Rightarrow> bool" where
  "keeps_tie_order by df out =
     list_all (\<lambda>k. filter (\<lambda>r. by r = k) out = filter (\<lambda>r. by r = k) df) (map by df)"

text \<open>The sum of the amounts of the rows of one category.\<close>

definition group_total :: "dataframe \<Rightarrow> string \<Rightarrow> real" where
  "group_total df c = (\<Sum>r\<leftarrow>filter (\<lambda>r. col_category r = c) df. col_amount r)"

text \<open>
  The categories with their totals, in the order in which the categories first occur in
  the rows of the frame.
\<close>

definition groups_in_row_order :: "dataframe \<Rightarrow> (string \<times> real) list" where
  "groups_in_row_order df =
     map (\<lambda>c. (c, group_total df c)) (rev (remdups (rev (map col_category df))))"

text \<open>
  What \<^verbatim>\<open>load_expenses\<close> makes of line \<open>i\<close> of a table: its date and its amount as pandas
  parses them in their columns, and the row it loads when both are there.
\<close>

definition parsed_date :: "pandas \<Rightarrow> csv_row list \<Rightarrow> nat \<Rightarrow> pydate option" where
  "parsed_date lib table i =
     to_datetime lib (read_column lib (map (\<lambda>(d, c, a, n). d) table)) i"

definition parsed_amount :: "pandas \<Rightarrow> csv_row list \<Rightarrow> nat \<Rightarrow> real option" where
  "parsed_amount lib table i =
     to_numeric lib (read_column lib (map (\<lambda>(d, c, a, n). a) table)) i"

definition loaded_row :: "pandas \<Rightarrow> csv_row list \<Rightarrow> nat \<Rightarrow> expense" where
  "loaded_row lib table i =
     \<lparr>col_date = the (parsed_date lib table i),
      col_category = astype_str lib (read_cell lib (map (\<lambda>(d, c, a, n). c) table) i),
      col_amount = the (parsed_amount lib table i),
      col_note =
        (case read_cell lib (map (\<lambda>(d, c, a, n). n) table) i of
           NaN \<Rightarrow> []
         | v \<Rightarrow> astype_str lib v)\<rparr>"

text \<open>Every date cell of a frame object holds a \<^verbatim>\<open>datetime.date\<close>, none its text.\<close>

fun is_date_object :: "datecell \<Rightarrow> bool" where
  "is_date_object (DateObj d) = True"
| "is_date_object (DateStr s) = False"

definition holds_dates :: "frame_object \<Rightarrow> bool" where
  "holds_dates frame = list_all (\<lambda>r. is_date_object (col_date r)) frame"

text \<open>A frame of the program as an object of the store.\<close>

definition as_object :: "dataframe \<Rightarrow> frame_object" where
  "as_object df =
     map (\<lambda>r. \<lparr>col_date = DateObj (col_date r), col_category = col_category r,
                 col_amount = col_amount r, col_note = col_note r\<rparr>) df"

section \<open>Example rows\<close>

text \<open>
  The two expenses of the specification's scenario, two expenses of equal amount in
  different categories, and an expense as \<^verbatim>\<open>load_expenses\<close> returns it for a line without
  a category.
\<close>

definition ex_lunch :: expense where
  "ex_lunch = \<lparr>col_date = (2024, 1, 5), col_category = ''Food'', col_amount = 12.5,
               col_note = ''lunch''\<rparr>"

definition ex_rent :: expense where
  "ex_rent = \<lparr>col_date = (2024, 1, 6), col_category = ''Rent'', col_amount = 500,
              col_note = ''''\<rparr>"

definition ex_bus :: expense where
  "ex_bus = \<lparr>col_date = (2024, 1, 7), col_category = ''Transport'', col_amount = 10,
             col_note = ''bus''\<rparr>"

definition ex_soup :: expense where
  "ex_soup = \<lparr>col_date = (2024, 1, 8), col_category = ''Food'', col_amount = 10,
              col_note = ''soup''\<rparr>"

definition ex_no_category :: expense where
  "ex_no_category = \<lparr>col_date = (2024, 1, 9), col_category = ''nan'', col_amount = 7,
                     col_note = ''''\<rparr>"

text \<open>
  Eighteen expenses of one day, told apart by their amounts 1 to 18, in the order in
  which they were entered.
\<close>

definition same_day_rows :: dataframe where
  "same_day_rows =
     map (\<lambda>i. \<lparr>col_date = (2024, 1, 5), col_category = ''Food'', col_amount = real (Suc i),
                 col_note = ''''\<rparr>)
       [0..<18]"

text \<open>
  The indexer of \<^verbatim>\<open>sort_values(by="date", ascending=False)\<close> on eighteen equal dates. For
  a descending sort pandas reverses the key column and the row positions, takes numpy's
  \<^verbatim>\<open>argsort\<close> of the reversed keys with \<^verbatim>\<open>kind="quicksort"\<close>, reads the reversed positions
  in that order and reverses the result. numpy's quicksort sorts a short array by
  insertion, which moves no equal keys, and partitions a longer one around the median
  of its first, middle and last key: on eighteen equal keys the one partition there is
  exchanges the entries 1 and 15, 2 and 14, up to 7 and 9, and the two parts are then
  short. Read back through the two reversals, the rows 2 to 16 come out back to front.
\<close>

definition quicksort_indexer :: "nat list" where
  "quicksort_indexer = [0, 1, 16, 15, 14, 13, 12, 11, 10, 9, 8, 7, 6, 5, 4, 3, 2, 17]"

section \<open>Properties of the string methods\<close>

lemma strip_decompose:
  "\<exists>pre suf. s = pre @ strip s @ suf \<and> list_all isspace pre \<and> list_all isspace suf"
proof -
  let ?a = "takeWhile isspace s" and ?m = "dropWhile isspace s"
  let ?b = "takeWhile isspace (rev ?m)"
  have "rev ?m = ?b @ dropWhile isspace (rev ?m)"
    by simp
  then have "?m = strip s @ rev ?b"
    unfolding strip_def by (metis rev_append rev_rev_ident)
  then have "s = ?a @ strip s @ rev ?b"
    by (metis takeWhile_dropWhile_id)
  moreover have "list_all isspace ?a"
    by (simp add: list_all_iff) (metis set_takeWhileD)
  moreover have "list_all isspace (rev ?b)"
    by (simp add: list_all_iff) (metis set_takeWhileD)
  ultimately show ?thesis
    by blast
qed

lemma strip_no_leading_space: "strip s \<noteq> [] \<Longrightarrow> \<not> isspace (hd (strip s))"
proof -
  assume ne: "strip s \<noteq> []"
  let ?m = "dropWhile isspace s"
  let ?r = "dropWhile isspace (rev ?m)"
  have r_ne: "?r \<noteq> []"
    using ne by (simp add: strip_def)
  then have "\<not> isspace (hd ?r)"
    by (rule hd_dropWhile)
  have m_ne: "?m \<noteq> []"
    using r_ne by (metis dropWhile.simps(1) rev.simps(1))
  then have hd_m: "\<not> isspace (hd ?m)"
    by (rule hd_dropWhile)
  have "last (rev ?m) = hd ?m"
    using m_ne by (simp add: last_rev)
  moreover have "last ?r = last (rev ?m)"
    using r_ne by (metis append_take_drop_id last_appendR takeWhile_dropWhile_id)
  moreover have "hd (strip s) = last ?r"
    using r_ne by (simp add: strip_def hd_rev)
  ultimately show ?thesis
    using hd_m by simp
qed

lemma strip_no_trailing_space: "strip s \<noteq> [] \<Longrightarrow> \<not> isspace (last (strip s))"
proof -
  assume ne: "strip s \<noteq> []"
  let ?r = "dropWhile isspace (rev (dropWhile isspace s))"
  have r_ne: "?r \<noteq> []"
    using ne by (simp add: strip_def)
  then have "\<not> isspace (hd ?r)"
    by (rule hd_dropWhile)
  moreover have "last (strip s) = hd ?r"
    using r_ne by (simp add: strip_def last_rev)
  ultimately show ?thesis
    by simp
qed

section \<open>The append postcondition\<close>

text \<open>
  C3. For every frame \<open>df\<close> and every input (date, category, amount, note),
  \<open>add_expense\<close> returns a frame one row longer, whose first \<open>length df\<close> rows are the
  rows of \<open>df\<close> in their order and whose last row is the normalised input: the given
  date and category, the amount as a float, and the note without the whitespace at its
  ends (what is cut off at either end is whitespace only, and what is left neither
  starts nor ends with whitespace).
\<close>

theorem add_expense_appends_normalised_row:
  "length (add_expense df expense_date category amount note) = length df + 1
   \<and> take (length df) (add_expense df expense_date category amount note) = df
   \<and> last (add_expense df expense_date category amount note) =
       \<lparr>col_date = expense_date, col_category = category,
        col_amount = amount, col_note = strip note\<rparr>
   \<and> (\<exists>pre suf. note = pre @ strip note @ suf \<and> list_all isspace pre \<and> list_all isspace suf)
   \<and> (strip note = [] \<or> (\<not> isspace (hd (strip note)) \<and> \<not> isspace (last (strip note))))"
proof -
  have "strip note = [] \<or> (\<not> isspace (hd (strip note)) \<and> \<not> isspace (last (strip note)))"
    using strip_no_leading_space strip_no_trailing_space by blast
  then show ?thesis
    using strip_decompose [of "note"] by (simp add: add_expense_def py_float_def)
qed

section \<open>Substrings and the modelled patterns\<close>

lemma startswith_iff: "startswith s sub \<longleftrightarrow> (\<exists>suf. s = sub @ suf)"
  by (induction s sub rule: startswith.induct) auto

lemma contains_iff: "contains s sub \<longleftrightarrow> (\<exists>pre suf. s = pre @ sub @ suf)"
proof (induction s)
  case Nil
  then show ?case by (auto simp: startswith_iff)
next
  case (Cons d s)
  show ?case
  proof
    assume "contains (d # s) sub"
    then consider "startswith (d # s) sub" | "contains s sub" by auto
    then show "\<exists>pre suf. d # s = pre @ sub @ suf"
    proof cases
      case 1
      then obtain suf where "d # s = sub @ suf" by (auto simp: startswith_iff)
      then have "d # s = [] @ sub @ suf" by simp
      then show ?thesis by blast
    next
      case 2
      then obtain pre suf where "s = pre @ sub @ suf" using Cons.IH by auto
      then have "d # s = (d # pre) @ sub @ suf" by simp
      then show ?thesis by blast
    qed
  next
    assume "\<exists>pre suf. d # s = pre @ sub @ suf"
    then obtain pre suf where eq: "d # s = pre @ sub @ suf" by auto
    show "contains (d # s) sub"
    proof (cases pre)
      case Nil
      then have "startswith (d # s) sub"
        using eq by (metis append_Nil startswith_iff)
      then show ?thesis by simp
    next
      case (Cons e pre')
      then have "s = pre' @ sub @ suf" using eq by simp
      then show ?thesis using Cons.IH by auto
    qed
  qed
qed

lemma match_here_literal: "match_here (map Lit p) s = startswith s p"
  by (induction s p rule: startswith.induct) auto

lemma re_search_literal: "re_search (map Lit p) s = contains s p"
  by (induction s) (simp_all add: match_here_literal)

lemma re_compile_literal: "\<not> list_ex re_special pat \<Longrightarrow> re_compile pat = Some (map Lit pat)"
  by (auto simp: re_compile_def list_ex_iff re_special_def)

text \<open>
  A keyword without a special character of \<^verbatim>\<open>re\<close> is searched for as a substring: then
  the filter keeps the rows of the selected category whose note holds the keyword, both
  in lower case.
\<close>

lemma filtered_literal_keyword:
  assumes "\<not> list_ex re_special (lower (strip search_note))"
  shows "filtered df selected_category search_note =
     Some (filter
       (\<lambda>r. (selected_category = ''All'' \<or> col_category r = selected_category)
            \<and> (strip search_note = [] \<or> contains (lower (col_note r)) (lower (strip search_note))))
       df)"
  using re_compile_literal [OF assms]
  by (simp add: filtered_def re_search_literal)

section \<open>Sums\<close>

lemma foldl_plus: "foldl (+) a xs = a + sum_list (xs :: real list)"
  by (induction xs arbitrary: a) simp_all

lemma series_sum_sum_list: "series_sum xs = sum_list xs"
  by (simp add: series_sum_def foldl_plus)

section \<open>Grouping\<close>

lemma groupby_sum_keys:
  "map fst (groupby_sum lib df) =
     sort (remdups (filter (\<lambda>c. \<not> isna_category lib c) (map col_category df)))"
  by (simp add: groupby_sum_def comp_def)

lemma groupby_sum_snd: "(c, t) \<in> set (groupby_sum lib df) \<Longrightarrow> t = group_total df c"
  by (auto simp: groupby_sum_def group_total_def series_sum_sum_list)

text \<open>
  A row whose category is a missing value: from pandas 3 on the grouping leaves it out,
  under pandas 2 its category is the text \<^verbatim>\<open>nan\<close> and it has a group. The total spent
  counts it in both cases.
\<close>

lemma by_category_leaves_out_missing_category:
  "by_category (lib\<lparr>str_keeps_na := True, argsort_amounts := (\<lambda>keys. [0])\<rparr>)
       [ex_soup, ex_no_category]
     = [(''Food'', 10)]
   \<and> by_category (lib\<lparr>str_keeps_na := False, argsort_amounts := (\<lambda>keys. [0, 1])\<rparr>)
       [ex_soup, ex_no_category]
     = [(''Food'', 10), (''nan'', 7)]
   \<and> total_spent [ex_soup, ex_no_category] = 17"
  by (simp add: by_category_def sort_values_def groupby_sum_def isna_category_def
      ex_soup_def ex_no_category_def series_sum_def total_spent_def)

section \<open>Sorting by an indexer\<close>

lemma indexer_set: "descending_indexer keys ix \<Longrightarrow> set ix = {..<length keys}"
  unfolding descending_indexer_def by (metis mset_eq_setD set_upt lessThan_atLeast0)

lemma take_rows_mset:
  assumes "mset ix = mset [0..<length df]"
  shows "mset (map (\<lambda>i. df ! i) ix) = mset df"
proof -
  have "mset (map (\<lambda>i. df ! i) ix) = image_mset (\<lambda>i. df ! i) (mset ix)"
    by simp
  also have "\<dots> = image_mset (\<lambda>i. df ! i) (mset [0..<length df])"
    using assms by simp
  also have "\<dots> = mset (map (\<lambda>i. df ! i) [0..<length df])"
    by simp
  also have "\<dots> = mset df"
    by (simp add: map_nth)
  finally show ?thesis .
qed

lemma sort_values_mset:
  "descending_indexer (map by df) (argsort (map by df)) \<Longrightarrow>
     mset (sort_values argsort by df) = mset df"
  unfolding sort_values_def descending_indexer_def
  using take_rows_mset [of "argsort (map by df)" df] by simp

lemma sort_values_descending:
  assumes "descending_indexer (map by df) (argsort (map by df))"
  shows "sorted_wrt (\<lambda>a b. by b \<le> by a) (sort_values argsort by df)"
proof -
  let ?ix = "argsort (map by df)"
  have in_range: "\<And>i. i \<in> set ?ix \<Longrightarrow> i < length df"
    using indexer_set [OF assms] by auto
  have "sorted_wrt (\<lambda>i j. map by df ! j \<le> map by df ! i) ?ix"
    using assms by (simp add: descending_indexer_def)
  then have "sorted_wrt (\<lambda>i j. by (df ! j) \<le> by (df ! i)) ?ix"
    by (rule sorted_wrt_mono_rel [rotated]) (simp add: in_range)
  then show ?thesis
    by (simp add: sort_values_def sorted_wrt_map)
qed

text \<open>
  When all rows of a frame have the same key, an arrangement of its rows keeps the tie
  order only if it is the frame itself.
\<close>

lemma same_key_tie_order:
  assumes "df \<noteq> []" and "list_all (\<lambda>r. key r = k) df"
    and "mset out = mset df" and "keeps_tie_order key df out"
  shows "out = df"
proof -
  have all_df: "\<And>r. r \<in> set df \<Longrightarrow> key r = k"
    using assms(2) by (simp add: list_all_iff)
  have "set out = set df"
    using assms(3) by (rule mset_eq_setD)
  then have all_out: "\<And>r. r \<in> set out \<Longrightarrow> key r = k"
    using all_df by simp
  obtain r0 where r0: "r0 \<in> set df"
    using assms(1) by (cases df) auto
  then have "filter (\<lambda>r. key r = key r0) out = filter (\<lambda>r. key r = key r0) df"
    using assms(4) by (simp add: keeps_tie_order_def list_all_iff)
  then have "filter (\<lambda>r. key r = k) out = filter (\<lambda>r. key r = k) df"
    using all_df [OF r0] by simp
  moreover have "filter (\<lambda>r. key r = k) out = out"
    using all_out by (simp add: filter_id_conv)
  moreover have "filter (\<lambda>r. key r = k) df = df"
    using all_df by (simp add: filter_id_conv)
  ultimately show ?thesis
    by simp
qed

lemma upt18: "[0..<18] = [0, 1, 2, 3, 4, 5, 6, 7, 8, 9, 10, 11, 12, 13, 14, 15, 16, 17]"
  by (simp add: upt_rec)

lemma same_day_rows_dates: "map col_date same_day_rows = replicate 18 (2024, 1, 5)"
  by (simp add: same_day_rows_def comp_def map_replicate_const)

lemma quicksort_indexer_admitted:
  "descending_indexer (map col_date same_day_rows) quicksort_indexer"
proof -
  have "sort quicksort_indexer = [0..<18]"
    by (simp add: quicksort_indexer_def upt18)
  then have "mset quicksort_indexer = mset [0..<18]"
    by (metis mset_sort)
  moreover have "sorted_wrt (\<lambda>i j. replicate 18 (2024 :: nat, 1 :: nat, 5 :: nat) ! j
      \<le> replicate 18 (2024, 1, 5) ! i) quicksort_indexer"
    by (simp add: quicksort_indexer_def)
  ultimately show ?thesis
    by (simp add: descending_indexer_def same_day_rows_dates)
qed

lemma same_day_rows_displayed:
  "df_display (lib\<lparr>argsort_dates := (\<lambda>keys. quicksort_indexer)\<rparr>) same_day_rows =
     map (\<lambda>i. \<lparr>col_date = (2024, 1, 5), col_category = ''Food'', col_amount = real (Suc i),
                 col_note = ''''\<rparr>)
       quicksort_indexer"
  by (simp add: df_display_def sort_values_def same_day_rows_def quicksort_indexer_def)

section \<open>Loading, row by row\<close>

lemma zip_map_same: "zip (map f xs) (map g xs) = map (\<lambda>x. (f x, g x)) xs"
  by (induction xs) simp_all

lemma dropna_map:
  "dropna (map (\<lambda>i. (D i, C i, A i, N i)) xs) =
     map (\<lambda>i. \<lparr>col_date = the (D i), col_category = C i, col_amount = the (A i), col_note = N i\<rparr>)
       (filter (\<lambda>i. D i \<noteq> None \<and> A i \<noteq> None) xs)"
proof (induction xs)
  case Nil
  then show ?case by simp
next
  case (Cons i xs)
  then show ?case
    by (cases "D i"; cases "A i") auto
qed

lemma load_expenses_rows:
  "load_expenses lib fs path =
     (case fs path of
        None \<Rightarrow> []
      | Some table \<Rightarrow>
          map (loaded_row lib table)
            (filter (\<lambda>i. parsed_date lib table i \<noteq> None \<and> parsed_amount lib table i \<noteq> None)
               [0..<length table]))"
proof (cases "fs path")
  case None
  then show ?thesis by (simp add: load_expenses_def)
next
  case (Some table)
  let ?n = "length table"
  let ?cats = "map (\<lambda>(d, c, a, n). c) table" and ?notes = "map (\<lambda>(d, c, a, n). n) table"
  let ?cat = "\<lambda>i. astype_str lib (read_cell lib ?cats i)"
  let ?note = "\<lambda>i. astype_str lib (fillna [] (read_cell lib ?notes i))"
  let ?keep = "filter (\<lambda>i. parsed_date lib table i \<noteq> None \<and> parsed_amount lib table i \<noteq> None)
                 [0..<?n]"
  have "load_expenses lib fs path =
     dropna (map (\<lambda>i. (parsed_date lib table i, ?cat i, parsed_amount lib table i, ?note i))
               [0..<?n])"
    unfolding load_expenses_def Some parsed_date_def parsed_amount_def
    by (simp only: option.case Let_def read_column_def length_map length_upt map_map
        zip_map_same comp_def minus_nat.diff_0)
  also have "\<dots> = map (\<lambda>i. \<lparr>col_date = the (parsed_date lib table i), col_category = ?cat i,
                           col_amount = the (parsed_amount lib table i), col_note = ?note i\<rparr>)
                    ?keep"
    by (rule dropna_map)
  also have "\<dots> = map (loaded_row lib table) ?keep"
  proof (rule map_cong [OF refl])
    fix i
    assume "i \<in> set ?keep"
    show "\<lparr>col_date = the (parsed_date lib table i), col_category = ?cat i,
           col_amount = the (parsed_amount lib table i), col_note = ?note i\<rparr> =
          loaded_row lib table i"
      by (cases "read_cell lib ?notes i") (simp_all add: loaded_row_def)
  qed
  finally show ?thesis
    using Some by simp
qed

lemma loaded_row_marker_note:
  "i < length table \<Longrightarrow> isna_text (snd (snd (snd (table ! i)))) \<Longrightarrow>
     col_note (loaded_row lib table i) = []"
  by (cases "table ! i") (auto simp: loaded_row_def read_cell_def)

section \<open>The store-level and the value-level saving write the same file\<close>

lemma save_expenses_store_file:
  assumes "df < length objs" and "objs ! df = as_object frame"
  shows "snd (save_expenses_store lib df path (objs, fs)) = save_expenses lib frame path fs"
  using assms
  by (simp add: save_expenses_store_def save_expenses_def Let_def nth_append as_object_def
      to_csv_def comp_def)

section \<open>The claims\<close>

text \<open>
  C1, at the failing input. The claim is the round trip: saving valid records and loading
  them again gives the same records, notes included. The frame with the one expense
  (2024-01-05, Food, 12.5, note \<^verbatim>\<open>N/A\<close>) is saved and loaded again: whatever the pandas
  kernels are, the notes of the loaded frame are not the note that was saved, because
  \<^verbatim>\<open>read_csv\<close> reads the cell \<^verbatim>\<open>N/A\<close> as a missing value and \<^verbatim>\<open>fillna("")\<close> makes it the
  empty note.
\<close>

theorem note_marker_lost_on_reload:
  "\<forall>lib fs.
     map col_note
       (load_expenses lib
          (save_expenses lib
             [\<lparr>col_date = (2024, 1, 5), col_category = ''Food'', col_amount = 12.5,
               col_note = ''N/A''\<rparr>]
             CSV_PATH fs)
          CSV_PATH)
     \<noteq> [''N/A'']"
proof (intro allI)
  fix lib :: pandas and fs :: filesystem
  have r: "read_column lib [''N/A''] = [NaN]"
    by (simp add: read_column_def read_cell_def isna_text_def STR_NA_VALUES_def)
  show "map col_note
       (load_expenses lib
          (save_expenses lib
             [\<lparr>col_date = (2024, 1, 5), col_category = ''Food'', col_amount = 12.5,
               col_note = ''N/A''\<rparr>]
             CSV_PATH fs)
          CSV_PATH)
     \<noteq> [''N/A'']"
    apply (simp add: load_expenses_def save_expenses_def to_csv_def r Let_def)
    apply (simp add: read_column_def)
    apply (cases "to_datetime lib [read_cell lib [isoformat (2024, 1, 5)] 0] 0";
           cases "to_numeric lib [read_cell lib [float_repr lib (25 / 2)] 0] 0")
    apply simp_all
    done
qed

text \<open>
  C2, at the failing input. The claim is that the keyword filter keeps exactly the rows
  whose note contains the keyword as a substring, case-insensitively. With no category
  selected and the keyword \<^verbatim>\<open>.\<close>, the filter keeps the expense with the note \<^verbatim>\<open>lunch\<close>,
  in which the keyword does not occur: the keyword is matched as a regular expression,
  and the dot matches any character.
\<close>

theorem dot_keyword_matches_without_occurring:
  "filtered [ex_lunch] ''All'' ''.'' = Some [ex_lunch]
   \<and> \<not> contains (lower (col_note ex_lunch)) (lower (strip ''.''))"
  by (simp add: filtered_def strip_def isspace_def re_compile_def re_special_def lower_def
      lower_char_def ex_lunch_def)

text \<open>
  C4. The total spent is the sum of the amounts of all rows of the frame, 0 for the empty
  frame, and whatever category and keyword are selected, the total that the page shows
  is this sum over the unfiltered frame.
\<close>

theorem total_spent_sums_every_row:
  "total_spent df = (\<Sum>r\<leftarrow>df. col_amount r)
   \<and> total_spent [] = 0
   \<and> (render lib df selected_category search_note = Some (Summary shown spent cats)
        \<longrightarrow> spent = total_spent df)"
  by (auto simp: total_spent_def series_sum_sum_list render_def split: if_splits option.splits)

theorem total_spent_sums_every_row_witness:
  "\<forall>lib. total_spent [ex_lunch, ex_rent] = 512.5
     \<and> (\<exists>shown cats. render lib [ex_lunch, ex_rent] ''Food'' ''lun''
           = Some (Summary shown 512.5 cats))"
proof
  fix lib
  have sum: "total_spent [ex_lunch, ex_rent] = 512.5"
    using total_spent_sums_every_row [of "[ex_lunch, ex_rent]" lib "''Food''" "''lun''"]
    by (simp add: ex_lunch_def ex_rent_def)
  have "\<not> list_ex re_special (lower (strip ''lun''))"
    by (simp add: strip_def isspace_def lower_def lower_char_def re_special_def)
  then have "\<exists>shown. filtered (df_display lib [ex_lunch, ex_rent]) ''Food'' ''lun'' = Some shown"
    by (simp add: filtered_literal_keyword)
  then show "total_spent [ex_lunch, ex_rent] = 512.5
     \<and> (\<exists>shown cats. render lib [ex_lunch, ex_rent] ''Food'' ''lun''
           = Some (Summary shown 512.5 cats))"
    using sum by (auto simp: render_def)
qed

text \<open>
  C5. When there is no file at the path, \<open>load_expenses\<close> returns the empty frame. When
  there is one, it returns, in the order of the lines, exactly the lines whose date and
  whose amount pandas parses; a line is left out for no other reason, whatever its
  category is. The note of a loaded row is empty when its cell is a missing value, which
  it is whenever the cell's text is empty or another marker.
\<close>

theorem load_expenses_keeps_parsed_rows:
  "load_expenses lib fs path =
     (case fs path of
        None \<Rightarrow> []
      | Some table \<Rightarrow>
          map (loaded_row lib table)
            (filter (\<lambda>i. parsed_date lib table i \<noteq> None \<and> parsed_amount lib table i \<noteq> None)
               [0..<length table]))
   \<and> (i < length table \<and> isna_text (snd (snd (snd (table ! i))))
        \<longrightarrow> col_note (loaded_row lib table i) = [])"
  using load_expenses_rows loaded_row_marker_note by blast

theorem load_expenses_keeps_parsed_rows_witness:
  "\<forall>lib.
     load_expenses
       (lib\<lparr>convert_cell := (\<lambda>texts i. StrCell (texts ! i)),
            to_datetime := (\<lambda>column i. if i = 1 then None else Some (2024, 1, 5 + i)),
            to_numeric := (\<lambda>column i. if i = 2 then None else Some 7)\<rparr>)
       [CSV_PATH \<mapsto>
          [(''2024-01-05'', ''Food'', ''7'', ''''),
           (''someday'', ''Rent'', ''500'', ''rent''),
           (''2024-01-07'', ''Pets'', ''a lot'', ''vet''),
           (''2024-01-08'', ''Pets'', ''7'', ''N/A'')]]
       CSV_PATH
     = [\<lparr>col_date = (2024, 1, 5), col_category = ''Food'', col_amount = 7, col_note = ''''\<rparr>,
        \<lparr>col_date = (2024, 1, 8), col_category = ''Pets'', col_amount = 7, col_note = ''''\<rparr>]"
proof
  fix lib :: pandas
  let ?lib = "lib\<lparr>convert_cell := (\<lambda>texts i. StrCell (texts ! i)),
            to_datetime := (\<lambda>column i. if i = 1 then None else Some (2024, 1, 5 + i)),
            to_numeric := (\<lambda>column i. if i = 2 then None else Some 7)\<rparr>"
  let ?table = "[(''2024-01-05'', ''Food'', ''7'', ''''),
           (''someday'', ''Rent'', ''500'', ''rent''),
           (''2024-01-07'', ''Pets'', ''a lot'', ''vet''),
           (''2024-01-08'', ''Pets'', ''7'', ''N/A'')]"
  have upt4: "[0..<4] = [0, 1, 2, 3]"
    by (simp add: upt_rec)
  show "load_expenses ?lib [CSV_PATH \<mapsto> ?table] CSV_PATH
     = [\<lparr>col_date = (2024, 1, 5), col_category = ''Food'', col_amount = 7, col_note = ''''\<rparr>,
        \<lparr>col_date = (2024, 1, 8), col_category = ''Pets'', col_amount = 7, col_note = ''''\<rparr>]"
    using load_expenses_keeps_parsed_rows [of ?lib "[CSV_PATH \<mapsto> ?table]" CSV_PATH 0 ?table]
    by (simp add: upt4 parsed_date_def parsed_amount_def loaded_row_def read_cell_def
        isna_text_def STR_NA_VALUES_def)
qed

text \<open>
  C6. In the state \<open>Idle\<close> a click on the clear button leaves the file system as it is and
  moves to \<open>PendingConfirm\<close>. In the state \<open>PendingConfirm\<close> a click deletes the file of
  the store, and only that file, so that loading it gives the empty frame, and moves
  back to \<open>Idle\<close>. So the store is never deleted by a click made in \<open>Idle\<close>.
\<close>

theorem clear_all_needs_two_clicks:
  "(confirm_state_of ss = Idle \<longrightarrow>
      snd (snd (clear_all_clicked (ss, fs))) = fs
      \<and> confirm_state_of (fst (snd (clear_all_clicked (ss, fs)))) = PendingConfirm)
   \<and> (confirm_state_of ss = PendingConfirm \<longrightarrow>
      snd (snd (clear_all_clicked (ss, fs))) = fs(CSV_PATH := None)
      \<and> load_expenses lib (snd (snd (clear_all_clicked (ss, fs)))) CSV_PATH = []
      \<and> confirm_state_of (fst (snd (clear_all_clicked (ss, fs)))) = Idle)"
  by (simp add: confirm_state_of_def clear_all_clicked_def load_expenses_def)

theorem clear_all_needs_two_clicks_witness:
  "\<forall>lib.
     confirm_state_of Map.empty = Idle
     \<and> clear_all_clicked (Map.empty, [CSV_PATH \<mapsto> [(''2024-01-05'', ''Food'', ''12.5'', ''lunch'')]])
       = ([StWarning ''Click again to confirm deletion.''],
          [''confirm_clear'' \<mapsto> True],
          [CSV_PATH \<mapsto> [(''2024-01-05'', ''Food'', ''12.5'', ''lunch'')]])
     \<and> confirm_state_of [''confirm_clear'' \<mapsto> True] = PendingConfirm
     \<and> snd (snd (clear_all_clicked
          ([''confirm_clear'' \<mapsto> True],
           [CSV_PATH \<mapsto> [(''2024-01-05'', ''Food'', ''12.5'', ''lunch'')]]))) CSV_PATH = None
     \<and> load_expenses lib
         (snd (snd (clear_all_clicked
            ([''confirm_clear'' \<mapsto> True],
             [CSV_PATH \<mapsto> [(''2024-01-05'', ''Food'', ''12.5'', ''lunch'')]]))))
         CSV_PATH = []
     \<and> confirm_state_of (fst (snd (clear_all_clicked
          ([''confirm_clear'' \<mapsto> True],
           [CSV_PATH \<mapsto> [(''2024-01-05'', ''Food'', ''12.5'', ''lunch'')]])))) = Idle"
proof
  fix lib :: pandas
  let ?fs = "[CSV_PATH \<mapsto> [(''2024-01-05'', ''Food'', ''12.5'', ''lunch'')]]"
  have idle: "confirm_state_of Map.empty = Idle"
    by (simp add: confirm_state_of_def)
  have pending: "confirm_state_of [''confirm_clear'' \<mapsto> True] = PendingConfirm"
    by (simp add: confirm_state_of_def)
  have first: "clear_all_clicked (Map.empty, ?fs)
       = ([StWarning ''Click again to confirm deletion.''], [''confirm_clear'' \<mapsto> True], ?fs)"
    by (simp add: clear_all_clicked_def)
  show "confirm_state_of Map.empty = Idle
     \<and> clear_all_clicked (Map.empty, ?fs)
       = ([StWarning ''Click again to confirm deletion.''], [''confirm_clear'' \<mapsto> True], ?fs)
     \<and> confirm_state_of [''confirm_clear'' \<mapsto> True] = PendingConfirm
     \<and> snd (snd (clear_all_clicked ([''confirm_clear'' \<mapsto> True], ?fs))) CSV_PATH = None
     \<and> load_expenses lib (snd (snd (clear_all_clicked ([''confirm_clear'' \<mapsto> True], ?fs))))
         CSV_PATH = []
     \<and> confirm_state_of (fst (snd (clear_all_clicked ([''confirm_clear'' \<mapsto> True], ?fs)))) = Idle"
    using clear_all_needs_two_clicks [of "[''confirm_clear'' \<mapsto> True]" ?fs lib]
      idle pending first
    by (simp add: load_expenses_def)
qed

text \<open>
  C7. When the amount of a submitted expense is zero or negative, the page reports the
  validation error, and the frame and the file system stay as they were: no row is
  added and nothing is saved.
\<close>

theorem on_submit_rejects_nonpositive_amount:
  "amount \<le> 0 \<Longrightarrow>
     on_submit lib expense_date category amount note (df, fs) =
       (StError ''Amount must be greater than 0.'', df, fs)"
  by (simp add: on_submit_def)

theorem on_submit_rejects_nonpositive_amount_witness:
  "\<forall>lib. (-5 :: real) \<le> 0
     \<and> on_submit lib (2024, 1, 5) ''Food'' (-5) ''lunch'' ([ex_rent], Map.empty) =
         (StError ''Amount must be greater than 0.'', [ex_rent], Map.empty)"
proof
  fix lib :: pandas
  have neg: "(-5 :: real) \<le> 0"
    by simp
  show "(-5 :: real) \<le> 0
     \<and> on_submit lib (2024, 1, 5) ''Food'' (-5) ''lunch'' ([ex_rent], Map.empty) =
         (StError ''Amount must be greater than 0.'', [ex_rent], Map.empty)"
    using neg on_submit_rejects_nonpositive_amount [OF neg, of lib "(2024, 1, 5)" "''Food''"
        "''lunch''" "[ex_rent]" Map.empty]
    by simp
qed

text \<open>
  C8, as the code has it. When the sort kernel returns an indexer as pandas documents it
  for the default \<^verbatim>\<open>kind\<close>, the displayed frame holds the rows of the frame, each as often
  as the frame does, ordered by date with the most recent first. Nothing is said of the
  order of rows with equal dates.
\<close>

theorem df_display_descending_permutation:
  assumes "descending_indexer (map col_date df) (argsort_dates lib (map col_date df))"
  shows "mset (df_display lib df) = mset df
     \<and> sorted_wrt (\<lambda>a b. col_date b \<le> col_date a) (df_display lib df)"
proof -
  have "mset (df_display lib df) = mset df"
    unfolding df_display_def using assms by (rule sort_values_mset)
  moreover have "sorted_wrt (\<lambda>a b. col_date b \<le> col_date a) (df_display lib df)"
    unfolding df_display_def using assms by (rule sort_values_descending)
  ultimately show ?thesis
    by simp
qed

theorem df_display_descending_permutation_witness:
  "\<forall>lib.
     descending_indexer (map col_date [ex_lunch, ex_rent]) [1, 0]
     \<and> df_display (lib\<lparr>argsort_dates := (\<lambda>keys. [1, 0])\<rparr>) [ex_lunch, ex_rent]
         = [ex_rent, ex_lunch]
     \<and> mset (df_display (lib\<lparr>argsort_dates := (\<lambda>keys. [1, 0])\<rparr>) [ex_lunch, ex_rent])
         = mset [ex_lunch, ex_rent]
     \<and> sorted_wrt (\<lambda>a b. col_date b \<le> col_date a)
         (df_display (lib\<lparr>argsort_dates := (\<lambda>keys. [1, 0])\<rparr>) [ex_lunch, ex_rent])"
proof
  fix lib :: pandas
  let ?lib = "lib\<lparr>argsort_dates := (\<lambda>keys. [1, 0])\<rparr>"
  have ix: "descending_indexer (map col_date [ex_lunch, ex_rent]) [1, 0]"
    by (simp add: descending_indexer_def upt_rec ex_lunch_def ex_rent_def)
  then have "descending_indexer (map col_date [ex_lunch, ex_rent])
      (argsort_dates ?lib (map col_date [ex_lunch, ex_rent]))"
    by simp
  from df_display_descending_permutation [OF this]
  have "mset (df_display ?lib [ex_lunch, ex_rent]) = mset [ex_lunch, ex_rent]
     \<and> sorted_wrt (\<lambda>a b. col_date b \<le> col_date a) (df_display ?lib [ex_lunch, ex_rent])" .
  moreover have "df_display ?lib [ex_lunch, ex_rent] = [ex_rent, ex_lunch]"
    by (simp add: df_display_def sort_values_def)
  ultimately show "descending_indexer (map col_date [ex_lunch, ex_rent]) [1, 0]
     \<and> df_display ?lib [ex_lunch, ex_rent] = [ex_rent, ex_lunch]
     \<and> mset (df_display ?lib [ex_lunch, ex_rent]) = mset [ex_lunch, ex_rent]
     \<and> sorted_wrt (\<lambda>a b. col_date b \<le> col_date a) (df_display ?lib [ex_lunch, ex_rent])"
    using ix by blast
qed

text \<open>
  C8 as it is stated fails: the claim has rows with equal dates in their original order.
  Eighteen expenses of one day are entered with the amounts 1 to 18. The indexer is the
  one that the sort computes on eighteen equal dates, and it is one that the documented
  sort admits. In the displayed frame the expenses with the amounts 3 to 17 stand back
  to front, so the tie order is not kept; and on this frame no arrangement of the rows
  other than the frame itself keeps it.
\<close>

theorem df_display_tie_order_not_kept:
  "\<forall>lib.
     descending_indexer (map col_date same_day_rows) quicksort_indexer
     \<and> map col_amount
         (df_display (lib\<lparr>argsort_dates := (\<lambda>keys. quicksort_indexer)\<rparr>) same_day_rows)
         = [1, 2, 17, 16, 15, 14, 13, 12, 11, 10, 9, 8, 7, 6, 5, 4, 3, 18]
     \<and> map col_amount same_day_rows
         = [1, 2, 3, 4, 5, 6, 7, 8, 9, 10, 11, 12, 13, 14, 15, 16, 17, 18]
     \<and> \<not> keeps_tie_order col_date same_day_rows
           (df_display (lib\<lparr>argsort_dates := (\<lambda>keys. quicksort_indexer)\<rparr>) same_day_rows)
     \<and> \<not> (\<exists>out. mset out = mset same_day_rows \<and> out \<noteq> same_day_rows
              \<and> keeps_tie_order col_date same_day_rows out)"
proof
  fix lib :: pandas
  let ?lib = "lib\<lparr>argsort_dates := (\<lambda>keys. quicksort_indexer)\<rparr>"
  have shown: "map col_amount (df_display ?lib same_day_rows)
         = [1, 2, 17, 16, 15, 14, 13, 12, 11, 10, 9, 8, 7, 6, 5, 4, 3, 18]"
    by (subst same_day_rows_displayed) (simp add: quicksort_indexer_def)
  have entered: "map col_amount same_day_rows
         = [1, 2, 3, 4, 5, 6, 7, 8, 9, 10, 11, 12, 13, 14, 15, 16, 17, 18]"
    by (simp add: same_day_rows_def upt18)
  have ne: "same_day_rows \<noteq> []"
    by (simp add: same_day_rows_def upt18)
  have one_day: "list_all (\<lambda>r. col_date r = (2024, 1, 5)) same_day_rows"
    by (simp add: same_day_rows_def list_all_iff)
  have only_itself: "\<And>out. mset out = mset same_day_rows \<Longrightarrow>
      keeps_tie_order col_date same_day_rows out \<Longrightarrow> out = same_day_rows"
    using same_key_tie_order [OF ne one_day] by blast
  have "descending_indexer (map col_date same_day_rows)
      (argsort_dates ?lib (map col_date same_day_rows))"
    using quicksort_indexer_admitted by simp
  then have perm: "mset (df_display ?lib same_day_rows) = mset same_day_rows"
    unfolding df_display_def by (rule sort_values_mset)
  have "df_display ?lib same_day_rows \<noteq> same_day_rows"
  proof
    assume "df_display ?lib same_day_rows = same_day_rows"
    then have "map col_amount (df_display ?lib same_day_rows) = map col_amount same_day_rows"
      by simp
    then show False
      unfolding shown entered by simp
  qed
  then have broken: "\<not> keeps_tie_order col_date same_day_rows (df_display ?lib same_day_rows)"
    using only_itself [OF perm] by blast
  show "descending_indexer (map col_date same_day_rows) quicksort_indexer
     \<and> map col_amount (df_display ?lib same_day_rows)
         = [1, 2, 17, 16, 15, 14, 13, 12, 11, 10, 9, 8, 7, 6, 5, 4, 3, 18]
     \<and> map col_amount same_day_rows
         = [1, 2, 3, 4, 5, 6, 7, 8, 9, 10, 11, 12, 13, 14, 15, 16, 17, 18]
     \<and> \<not> keeps_tie_order col_date same_day_rows (df_display ?lib same_day_rows)
     \<and> \<not> (\<exists>out. mset out = mset same_day_rows \<and> out \<noteq> same_day_rows
              \<and> keeps_tie_order col_date same_day_rows out)"
    using quicksort_indexer_admitted shown entered broken only_itself by blast
qed

text \<open>
  C9, as the code has it. When the sort kernel returns an indexer as pandas documents it
  for the default \<^verbatim>\<open>kind\<close>, \<open>by_category\<close> has one pair for each category of the frame
  that is not a missing value and no category twice, the total of each pair is the sum
  of the amounts of the rows of its category, and the pairs are ordered by descending
  total. Nothing is said of the order of categories with equal totals, nor of the sum of
  the totals.
\<close>

theorem by_category_totals:
  assumes "descending_indexer (map snd (groupby_sum lib df))
             (argsort_amounts lib (map snd (groupby_sum lib df)))"
  shows "distinct (map fst (by_category lib df))
     \<and> set (map fst (by_category lib df))
         = {c \<in> col_category ` set df. \<not> isna_category lib c}
     \<and> list_all (\<lambda>(c, t). t = group_total df c) (by_category lib df)
     \<and> sorted_wrt (\<lambda>a b. snd b \<le> snd a) (by_category lib df)"
proof -
  have m: "mset (by_category lib df) = mset (groupby_sum lib df)"
    unfolding by_category_def using assms by (rule sort_values_mset)
  then have mk: "mset (map fst (by_category lib df)) = mset (map fst (groupby_sum lib df))"
    by (metis mset_map)
  have "distinct (map fst (groupby_sum lib df))"
    by (simp add: groupby_sum_keys)
  then have 1: "distinct (map fst (by_category lib df))"
    using mk by (metis mset_eq_imp_distinct_iff)
  have 2: "set (map fst (by_category lib df))
      = {c \<in> col_category ` set df. \<not> isna_category lib c}"
    using mset_eq_setD [OF mk] by (auto simp: groupby_sum_keys)
  have 3: "list_all (\<lambda>(c, t). t = group_total df c) (by_category lib df)"
    using mset_eq_setD [OF m] groupby_sum_snd by (auto simp: list_all_iff)
  have 4: "sorted_wrt (\<lambda>a b. snd b \<le> snd a) (by_category lib df)"
    unfolding by_category_def using assms by (rule sort_values_descending)
  from 1 2 3 4 show ?thesis by blast
qed

theorem by_category_totals_witness:
  "\<forall>lib.
     descending_indexer (map snd (groupby_sum lib [ex_lunch, ex_rent])) [1, 0]
     \<and> by_category (lib\<lparr>argsort_amounts := (\<lambda>keys. [1, 0])\<rparr>) [ex_lunch, ex_rent]
         = [(''Rent'', 500), (''Food'', 12.5)]
     \<and> sorted_wrt (\<lambda>a b. snd b \<le> snd a)
         (by_category (lib\<lparr>argsort_amounts := (\<lambda>keys. [1, 0])\<rparr>) [ex_lunch, ex_rent])
     \<and> set (map fst (by_category (lib\<lparr>argsort_amounts := (\<lambda>keys. [1, 0])\<rparr>)
           [ex_lunch, ex_rent])) = {''Food'', ''Rent''}"
proof
  fix lib :: pandas
  let ?lib = "lib\<lparr>argsort_amounts := (\<lambda>keys. [1, 0])\<rparr>"
  have g: "\<And>l. groupby_sum l [ex_lunch, ex_rent] = [(''Food'', 12.5), (''Rent'', 500)]"
    by (simp add: groupby_sum_def isna_category_def ex_lunch_def ex_rent_def series_sum_def)
  have ix: "descending_indexer (map snd (groupby_sum lib [ex_lunch, ex_rent])) [1, 0]"
    by (simp add: g descending_indexer_def upt_rec)
  have "descending_indexer (map snd (groupby_sum ?lib [ex_lunch, ex_rent]))
      (argsort_amounts ?lib (map snd (groupby_sum ?lib [ex_lunch, ex_rent])))"
    by (simp add: g descending_indexer_def upt_rec)
  from by_category_totals [OF this]
  have sorted: "sorted_wrt (\<lambda>a b. snd b \<le> snd a) (by_category ?lib [ex_lunch, ex_rent])"
    by blast
  have bc: "by_category ?lib [ex_lunch, ex_rent] = [(''Rent'', 500), (''Food'', 12.5)]"
    by (simp add: by_category_def sort_values_def g)
  have keys: "set (map fst (by_category ?lib [ex_lunch, ex_rent])) = {''Food'', ''Rent''}"
    unfolding bc by auto
  show "descending_indexer (map snd (groupby_sum lib [ex_lunch, ex_rent])) [1, 0]
     \<and> by_category ?lib [ex_lunch, ex_rent] = [(''Rent'', 500), (''Food'', 12.5)]
     \<and> sorted_wrt (\<lambda>a b. snd b \<le> snd a) (by_category ?lib [ex_lunch, ex_rent])
     \<and> set (map fst (by_category ?lib [ex_lunch, ex_rent])) = {''Food'', ''Rent''}"
    using ix bc sorted keys by blast
qed

text \<open>
  C9 as it is stated fails: the claim has categories with equal totals in their input
  order. The bus (Transport, 10) is entered before the soup (Food, 10). The grouped
  table that is sorted has its rows in the order of the category names, Food before
  Transport, and the sort, which on this table of two rows keeps that order, returns
  Food before Transport: not the order in which the categories come in the records.
\<close>

theorem by_category_tie_order_not_kept:
  "\<forall>lib.
     descending_indexer (map snd (groupby_sum lib [ex_bus, ex_soup])) [0, 1]
     \<and> by_category (lib\<lparr>argsort_amounts := (\<lambda>keys. [0, 1])\<rparr>) [ex_bus, ex_soup]
         = [(''Food'', 10), (''Transport'', 10)]
     \<and> groups_in_row_order [ex_bus, ex_soup] = [(''Transport'', 10), (''Food'', 10)]
     \<and> \<not> keeps_tie_order snd (groups_in_row_order [ex_bus, ex_soup])
           (by_category (lib\<lparr>argsort_amounts := (\<lambda>keys. [0, 1])\<rparr>) [ex_bus, ex_soup])"
proof
  fix lib :: pandas
  let ?lib = "lib\<lparr>argsort_amounts := (\<lambda>keys. [0, 1])\<rparr>"
  have g: "\<And>l. groupby_sum l [ex_bus, ex_soup] = [(''Food'', 10), (''Transport'', 10)]"
    by (simp add: groupby_sum_def isna_category_def ex_bus_def ex_soup_def series_sum_def)
  have r: "groups_in_row_order [ex_bus, ex_soup] = [(''Transport'', 10), (''Food'', 10)]"
    by (simp add: groups_in_row_order_def group_total_def ex_bus_def ex_soup_def)
  have bc: "by_category ?lib [ex_bus, ex_soup] = [(''Food'', 10), (''Transport'', 10)]"
    by (simp add: by_category_def sort_values_def g)
  show "descending_indexer (map snd (groupby_sum lib [ex_bus, ex_soup])) [0, 1]
     \<and> by_category ?lib [ex_bus, ex_soup] = [(''Food'', 10), (''Transport'', 10)]
     \<and> groups_in_row_order [ex_bus, ex_soup] = [(''Transport'', 10), (''Food'', 10)]
     \<and> \<not> keeps_tie_order snd (groups_in_row_order [ex_bus, ex_soup])
           (by_category ?lib [ex_bus, ex_soup])"
    unfolding bc r
    by (simp add: g descending_indexer_def keeps_tie_order_def upt_rec)
qed

text \<open>
  C10. Saving leaves every frame object that was in the store as it was, the frame it is
  given among them: when the date cells of that frame held dates before, they hold
  dates after, not their text. What \<open>astype(str)\<close> changes is the copy, a new object.
\<close>

theorem save_expenses_store_keeps_input:
  assumes "df < length objs"
  shows "take (length objs) (fst (save_expenses_store lib df path (objs, fs))) = objs
     \<and> fst (save_expenses_store lib df path (objs, fs)) ! df = objs ! df
     \<and> (holds_dates (objs ! df)
          \<longrightarrow> holds_dates (fst (save_expenses_store lib df path (objs, fs)) ! df))
     \<and> \<not> list_ex (\<lambda>r. is_date_object (col_date r))
           (last (fst (save_expenses_store lib df path (objs, fs))))"
  using assms
  by (simp add: save_expenses_store_def Let_def nth_append list_ex_iff)

theorem save_expenses_store_keeps_input_witness:
  "\<forall>lib fs.
     (0 :: nat) < length [as_object [ex_lunch, ex_rent]]
     \<and> fst (save_expenses_store lib 0 CSV_PATH ([as_object [ex_lunch, ex_rent]], fs)) ! 0
         = as_object [ex_lunch, ex_rent]
     \<and> holds_dates (fst (save_expenses_store lib 0 CSV_PATH ([as_object [ex_lunch, ex_rent]], fs)) ! 0)
     \<and> map col_date (last (fst (save_expenses_store lib 0 CSV_PATH
           ([as_object [ex_lunch, ex_rent]], fs))))
         = [DateStr ''2024-01-05'', DateStr ''2024-01-06'']"
proof (intro allI)
  fix lib :: pandas and fs :: filesystem
  let ?objs = "[as_object [ex_lunch, ex_rent]]"
  have len: "(0 :: nat) < length ?objs"
    by simp
  have dates: "holds_dates (?objs ! 0)"
    by (simp add: holds_dates_def as_object_def)
  have iso: "isoformat (2024, Suc 0, 5) = ''2024-01-05''"
    "isoformat (2024, Suc 0, 6) = ''2024-01-06''"
    by code_simp+
  have copy: "map col_date (last (fst (save_expenses_store lib 0 CSV_PATH (?objs, fs))))
         = [DateStr ''2024-01-05'', DateStr ''2024-01-06'']"
    by (simp add: save_expenses_store_def as_object_def ex_lunch_def ex_rent_def iso)
  show "(0 :: nat) < length ?objs
     \<and> fst (save_expenses_store lib 0 CSV_PATH (?objs, fs)) ! 0 = as_object [ex_lunch, ex_rent]
     \<and> holds_dates (fst (save_expenses_store lib 0 CSV_PATH (?objs, fs)) ! 0)
     \<and> map col_date (last (fst (save_expenses_store lib 0 CSV_PATH (?objs, fs))))
         = [DateStr ''2024-01-05'', DateStr ''2024-01-06'']"
    using save_expenses_store_keeps_input [OF len, of lib CSV_PATH fs] dates copy
    by simp
qed

end
